theory Spec2Isabelle
  imports Main
begin

section \<open>Values, exceptions and the HTTP transport\<close>

text \<open>
  The client of \<^verbatim>\<open>octoprint_rest_api.py\<close> talks to a server through the
  \<^verbatim>\<open>requests\<close> library. The values it handles are decoded JSON documents; JSON
  \<^verbatim>\<open>null\<close> decodes to Python's \<^verbatim>\<open>None\<close>, so \<open>JNull\<close> stands for both. The code
  never looks inside a number, so integers stand for all JSON numbers.
\<close>

datatype json =
    JNull
  | JBool bool
  | JNum int
  | JStr string
  | JList "json list"
  | JDict "(string \<times> json) list"

text \<open>
  The exception classes the code raises, catches or lets through. \<open>ConnectionError\<close> is
  \<^verbatim>\<open>requests.exceptions.ConnectionError\<close> with its subclasses, \<open>ValueError\<close> covers the
  JSON decoding error of \<^verbatim>\<open>Response.json()\<close>, which is a subclass of it, and
  \<open>OtherError\<close> is any class the code names nowhere, by its name: the
  \<^verbatim>\<open>RecursionError\<close> of the decoder on a body nested too deeply is one.
\<close>

datatype exn =
    ReadTimeout string
  | ConnectionError string
  | ValueError
  | KeyError string
  | TypeError
  | Exception string
  | OtherError string

datatype http_method = GET | POST

record request =
  req_method :: http_method
  req_url :: string
  req_headers :: "(string \<times> json) list"
  req_json :: "json option"
  req_timeout :: int

text \<open>
  A response carries its status code and its body. The body is kept as the outcome of
  \<^verbatim>\<open>Response.json()\<close> on it: \<open>Inr j\<close> is a body that decodes to the document \<open>j\<close>,
  \<open>Inl e\<close> a body that does not parse, on which the decoder raises \<open>e\<close>. That is a
  \<^verbatim>\<open>ValueError\<close> for a body that is not JSON; the decoder can also fail with an
  exception of another class.
\<close>

record response =
  status_code :: int
  body :: "exn + json"

datatype reply = Resp response | Fail exn

text \<open>
  The world outside the client: the replies the transport will give to the coming
  requests, in order, the requests sent so far, the lines printed and the number of
  one-second sleeps. A call of \<^verbatim>\<open>requests.get\<close> or \<^verbatim>\<open>requests.post\<close> takes the next
  reply; a run that needs more replies than the world holds has no result (\<open>None\<close>).
\<close>

record world =
  pending :: "reply list"
  sent :: "request list"
  stdout :: "string list"
  slept :: nat

definition http :: "request \<Rightarrow> world \<Rightarrow> (reply \<times> world) option" where
  "http rq w =
     (case pending w of
        [] \<Rightarrow> None
      | r # rs \<Rightarrow> Some (r, w\<lparr>pending := rs, sent := sent w @ [rq]\<rparr>))"

definition print :: "string \<Rightarrow> world \<Rightarrow> world" where
  "print line w = w\<lparr>stdout := stdout w @ [line]\<rparr>"

definition sleep :: "world \<Rightarrow> world" where
  "sleep w = w\<lparr>slept := Suc (slept w)\<rparr>"

definition response_json :: "response \<Rightarrow> exn + json" where
  "response_json r = body r"

text \<open>Subscription \<^verbatim>\<open>value[key]\<close> with a string key, and \<^verbatim>\<open>prefix + value\<close>.\<close>

definition getitem :: "json \<Rightarrow> string \<Rightarrow> exn + json" where
  "getitem j k =
     (case j of
        JDict d \<Rightarrow> (case map_of d k of None \<Rightarrow> Inl (KeyError k) | Some v \<Rightarrow> Inr v)
      | _ \<Rightarrow> Inl TypeError)"

definition str_add :: "string \<Rightarrow> json \<Rightarrow> exn + string" where
  "str_add s j = (case j of JStr t \<Rightarrow> Inr (s @ t) | _ \<Rightarrow> Inl TypeError)"

text \<open>Decimal rendering of an integer, as \<^verbatim>\<open>str.format\<close> does it.\<close>

function str_nat :: "nat \<Rightarrow> string" where
  "str_nat n =
     (if n < 10 then [''0123456789'' ! n]
      else str_nat (n div 10) @ [''0123456789'' ! (n mod 10)])"
  by pat_completeness auto
termination
  by (relation "measure id") auto

declare str_nat.simps [simp del]

definition str_int :: "int \<Rightarrow> string" where
  "str_int i = (if i < 0 then CHR ''-'' # str_nat (nat (- i)) else str_nat (nat i))"

section \<open>The client\<close>

record client =
  base_url :: string
  headers :: "(string \<times> json) list"
  api_key :: json
  connected :: bool

definition init :: "string \<Rightarrow> int \<Rightarrow> string \<Rightarrow> client" where
  "init host port path =
     \<lparr>base_url = ''http://'' @ host @ '':'' @ str_int port @ path,
      headers = [],
      api_key = JNull,
      connected = False\<rparr>"

definition set_api_key :: "json \<Rightarrow> client \<Rightarrow> bool \<times> client" where
  "set_api_key key c = (True, c\<lparr>api_key := key, headers := [(''X-Api-Key'', key)]\<rparr>)"

text \<open>
  The result of an operation: what it returns or raises, the client afterwards and the
  world afterwards.
\<close>

type_synonym 'a run = "((exn + 'a) \<times> client \<times> world) option"

subsection \<open>The handshake\<close>

definition poll_request :: "client \<Rightarrow> string \<Rightarrow> int \<Rightarrow> request" where
  "poll_request c poll_url t =
     \<lparr>req_method = GET, req_url = poll_url, req_headers = headers c,
      req_json = None, req_timeout = t\<rparr>"

text \<open>
  The loop \<^verbatim>\<open>while response.status_code == 202\<close> of \<^verbatim>\<open>get_api_key\<close>, entered with
  the response of the previous poll; leaving the loop reaches the final
  \<^verbatim>\<open>return False\<close>.
\<close>

function wait_for_user :: "client \<Rightarrow> string \<Rightarrow> int \<Rightarrow> response \<Rightarrow> world \<Rightarrow> bool run" where
  "wait_for_user c poll_url t r w =
     (if status_code r = 202 then
        (case http (poll_request c poll_url t) w of
           None \<Rightarrow> None
         | Some (Fail e, w1) \<Rightarrow> Some (Inl e, c, w1)
         | Some (Resp r1, w1) \<Rightarrow>
             (let w2 = sleep w1 in
              if status_code r1 = 200 then
                (case response_json r1 of
                   Inl e \<Rightarrow> Some (Inl e, c, w2)
                 | Inr j \<Rightarrow>
                     (case getitem j ''api_key'' of
                        Inl e \<Rightarrow> Some (Inl e, c, w2)
                      | Inr key \<Rightarrow>
                          Some (Inr True, (snd (set_api_key key c))\<lparr>connected := True\<rparr>, w2)))
              else if status_code r1 = 404 then
                Some (Inl (Exception ''User denied access''), c, w2)
              else wait_for_user c poll_url t r1 w2))
      else Some (Inr False, c, w))"
  by pat_completeness auto
termination
  by (relation "measure (\<lambda>(c, poll_url, t, r, w). length (pending w))")
     (auto simp: http_def sleep_def split: list.splits)

declare wait_for_user.simps [simp del]

definition probe_request :: "client \<Rightarrow> int \<Rightarrow> request" where
  "probe_request c t =
     \<lparr>req_method = GET, req_url = base_url c @ ''plugin/appkeys/probe'',
      req_headers = headers c, req_json = None, req_timeout = t\<rparr>"

definition token_request :: "string \<Rightarrow> string option \<Rightarrow> client \<Rightarrow> int \<Rightarrow> request" where
  "token_request app_name user_name c t =
     \<lparr>req_method = POST, req_url = base_url c @ ''plugin/appkeys/request'',
      req_headers = headers c,
      req_json = Some (JDict [(''app'', JStr app_name),
        (''user'', case user_name of None \<Rightarrow> JNull | Some u \<Rightarrow> JStr u)]),
      req_timeout = t\<rparr>"

definition get_api_key :: "string \<Rightarrow> string option \<Rightarrow> int \<Rightarrow> client \<Rightarrow> world \<Rightarrow> bool run" where
  "get_api_key app_name user_name t c w =
     (case http (probe_request c t) w of
        None \<Rightarrow> None
      | Some (Fail e, w1) \<Rightarrow>
          (case e of
             ReadTimeout m \<Rightarrow>
               Some (Inl (ReadTimeout ''Could not connect to server, no response''), c, w1)
           | ConnectionError m \<Rightarrow>
               Some (Inl (ConnectionError ''Could not connect to server, connection refused''), c, w1)
           | _ \<Rightarrow> Some (Inl e, c, w1))
      | Some (Resp r, w1) \<Rightarrow>
          if status_code r = 204 then
            (case http (token_request app_name user_name c t) w1 of
               None \<Rightarrow> None
             | Some (Fail e, w2) \<Rightarrow> Some (Inl e, c, w2)
             | Some (Resp r2, w2) \<Rightarrow>
                 if status_code r2 = 201 then
                   (case response_json r2 of
                      Inl e \<Rightarrow> Some (Inl e, c, w2)
                    | Inr j \<Rightarrow>
                        (case getitem j ''app_token'' of
                           Inl e \<Rightarrow> Some (Inl e, c, w2)
                         | Inr app_token \<Rightarrow>
                             (case str_add (base_url c @ ''plugin/appkeys/request/'') app_token of
                                Inl e \<Rightarrow> Some (Inl e, c, w2)
                              | Inr poll_url \<Rightarrow>
                                  (case http (poll_request c poll_url t) w2 of
                                     None \<Rightarrow> None
                                   | Some (Fail e, w3) \<Rightarrow> Some (Inl e, c, w3)
                                   | Some (Resp r3, w3) \<Rightarrow> wait_for_user c poll_url t r3 w3))))
                 else Some (Inl (Exception ''User not created''), c, w2))
          else
            Some (Inl (Exception ''Instance does not seem to support Application Keys Plugin''),
                  c, w1))"

subsection \<open>Revocation\<close>

definition revoke_request :: "client \<Rightarrow> request" where
  "revoke_request c =
     \<lparr>req_method = POST, req_url = base_url c @ ''api/plugin/appkeys'',
      req_headers = headers c,
      req_json = Some (JDict [(''command'', JStr ''revoke''), (''key'', api_key c)]),
      req_timeout = 1\<rparr>"

definition deregister :: "client \<Rightarrow> world \<Rightarrow> bool run" where
  "deregister c w =
     (case http (revoke_request c) w of
        None \<Rightarrow> None
      | Some (Fail e, w1) \<Rightarrow>
          (case e of
             ConnectionError m \<Rightarrow> Some (Inr False, c, print ''Could not connect.'' w1)
           | _ \<Rightarrow> Some (Inl e, c, w1))
      | Some (Resp r, w1) \<Rightarrow>
          if status_code r = 204 then Some (Inr True, c\<lparr>connected := False\<rparr>, w1)
          else Some (Inr False, c, w1))"

subsection \<open>Read operations\<close>

text \<open>
  Every read operation of the source has the same body, up to the sub-path: one GET with
  the stored headers and a timeout of 9 seconds, \<^verbatim>\<open>.json()\<close> on the response, and
  \<^verbatim>\<open>except ValueError: return False\<close> around both. \<open>get_json\<close> is that body; the
  value returned is the decoded document or Python's \<^verbatim>\<open>False\<close>, which is \<open>JBool False\<close>.
\<close>

definition read_request :: "string \<Rightarrow> client \<Rightarrow> request" where
  "read_request sub_path c =
     \<lparr>req_method = GET, req_url = base_url c @ sub_path,
      req_headers = headers c, req_json = None, req_timeout = 9\<rparr>"

definition get_json :: "string \<Rightarrow> client \<Rightarrow> world \<Rightarrow> json run" where
  "get_json sub_path c w =
     (case http (read_request sub_path c) w of
        None \<Rightarrow> None
      | Some (Fail e, w1) \<Rightarrow>
          (case e of
             ValueError \<Rightarrow> Some (Inr (JBool False), c, w1)
           | _ \<Rightarrow> Some (Inl e, c, w1))
      | Some (Resp r, w1) \<Rightarrow>
          (case response_json r of
             Inl e \<Rightarrow>
               (case e of
                  ValueError \<Rightarrow> Some (Inr (JBool False), c, w1)
                | _ \<Rightarrow> Some (Inl e, c, w1))
           | Inr j \<Rightarrow> Some (Inr j, c, w1)))"

definition retrieve_appkeys :: "client \<Rightarrow> world \<Rightarrow> json run" where
  "retrieve_appkeys = get_json ''api/plugin/appkeys''"

definition get_printer_version :: "client \<Rightarrow> world \<Rightarrow> json run" where
  "get_printer_version = get_json ''api/version''"

definition get_printer_status :: "client \<Rightarrow> world \<Rightarrow> json run" where
  "get_printer_status = get_json ''api/printer''"

definition get_printer_connection :: "client \<Rightarrow> world \<Rightarrow> json run" where
  "get_printer_connection = get_json ''api/connection''"

definition get_printer_files :: "client \<Rightarrow> world \<Rightarrow> json run" where
  "get_printer_files = get_json ''api/files?recursive=true''"

definition get_printer_job :: "client \<Rightarrow> world \<Rightarrow> json run" where
  "get_printer_job = get_json ''api/job''"

definition get_printer_tool_state :: "client \<Rightarrow> world \<Rightarrow> json run" where
  "get_printer_tool_state = get_json ''api/printer/tool''"

definition get_printer_bed_state :: "client \<Rightarrow> world \<Rightarrow> json run" where
  "get_printer_bed_state = get_json ''api/printer/bed''"

definition get_printer_chamber_state :: "client \<Rightarrow> world \<Rightarrow> json run" where
  "get_printer_chamber_state = get_json ''api/printer/chamber''"

definition get_printer_sd_state :: "client \<Rightarrow> world \<Rightarrow> json run" where
  "get_printer_sd_state = get_json ''api/printer/sd''"

definition get_printer_profiles :: "client \<Rightarrow> world \<Rightarrow> json run" where
  "get_printer_profiles = get_json ''api/printerprofiles''"

definition get_printer_settings :: "client \<Rightarrow> world \<Rightarrow> json run" where
  "get_printer_settings = get_json ''api/settings''"

definition get_slicing :: "client \<Rightarrow> world \<Rightarrow> json run" where
  "get_slicing = get_json ''api/slicing''"

definition get_system_commands :: "client \<Rightarrow> world \<Rightarrow> json run" where
  "get_system_commands = get_json ''api/system/commands''"

definition get_timelapse :: "client \<Rightarrow> world \<Rightarrow> json run" where
  "get_timelapse = get_json ''api/timelapse''"

subsection \<open>Commands\<close>

text \<open>
  \<^verbatim>\<open>pause_print\<close>, \<^verbatim>\<open>resume_print\<close> and \<^verbatim>\<open>set_printer_settings\<close> return the
  response object of their POST; the first two return \<^verbatim>\<open>False\<close> when they send
  nothing or the connection is refused.
\<close>

datatype posted = Posted response | PFalse

definition job_command :: "string \<Rightarrow> client \<Rightarrow> request" where
  "job_command action c =
     \<lparr>req_method = POST, req_url = base_url c @ ''api/job'', req_headers = headers c,
      req_json = Some (JDict [(''command'', JStr ''pause''), (''action'', JStr action)]),
      req_timeout = 9\<rparr>"

definition pause_print :: "client \<Rightarrow> world \<Rightarrow> posted run" where
  "pause_print c w =
     (if connected c then
        (case http (job_command ''pause'' c) w of
           None \<Rightarrow> None
         | Some (Fail e, w1) \<Rightarrow>
             (case e of
                ConnectionError m \<Rightarrow> Some (Inr PFalse, c, print ''Connection refused.'' w1)
              | _ \<Rightarrow> Some (Inl e, c, w1))
         | Some (Resp r, w1) \<Rightarrow> Some (Inr (Posted r), c, w1))
      else Some (Inr PFalse, c, w))"

definition resume_print :: "client \<Rightarrow> world \<Rightarrow> posted run" where
  "resume_print c w =
     (if connected c then
        (case http (job_command ''resume'' c) w of
           None \<Rightarrow> None
         | Some (Fail e, w1) \<Rightarrow>
             (case e of
                ConnectionError m \<Rightarrow> Some (Inr PFalse, c, print ''Connection refused.'' w1)
              | _ \<Rightarrow> Some (Inl e, c, w1))
         | Some (Resp r, w1) \<Rightarrow> Some (Inr (Posted r), c, w1))
      else Some (Inr PFalse, c, w))"

definition settings_request :: "client \<Rightarrow> request" where
  "settings_request c =
     \<lparr>req_method = POST, req_url = base_url c @ ''api/settings'',
      req_headers = headers c,
      req_json = Some (JDict [(''appearance'', JDict [(''color'', JStr ''green'')])]),
      req_timeout = 9\<rparr>"


subsection \<open>Reachable client states\<close>

text \<open>
  The states a client can be in after construction and any sequence of
  \<^verbatim>\<open>_set_api_key\<close>, \<^verbatim>\<open>get_api_key\<close>, \<^verbatim>\<open>deregister\<close>, \<^verbatim>\<open>pause_print\<close> and
  \<^verbatim>\<open>resume_print\<close>, whatever each call returns or raises. \<open>K\<close> says which keys a
  caller may pass to \<^verbatim>\<open>_set_api_key\<close> and \<open>W\<close> in which worlds the handshake runs.
\<close>

inductive reachable :: "(json \<Rightarrow> bool) \<Rightarrow> (world \<Rightarrow> bool) \<Rightarrow> client \<Rightarrow> bool"
  for K :: "json \<Rightarrow> bool" and W :: "world \<Rightarrow> bool" where
    r_init: "reachable K W (init host port path)"
  | r_set_api_key: "reachable K W c \<Longrightarrow> K key \<Longrightarrow> reachable K W (snd (set_api_key key c))"
  | r_get_api_key:
      "reachable K W c \<Longrightarrow> W w \<Longrightarrow> get_api_key app_name user_name t c w = Some (res, c1, w1)
       \<Longrightarrow> reachable K W c1"
  | r_deregister: "reachable K W c \<Longrightarrow> deregister c w = Some (res, c1, w1) \<Longrightarrow> reachable K W c1"
  | r_pause_print: "reachable K W c \<Longrightarrow> pause_print c w = Some (resp, c1, w1) \<Longrightarrow> reachable K W c1"
  | r_resume_print: "reachable K W c \<Longrightarrow> resume_print c w = Some (resp, c1, w1) \<Longrightarrow> reachable K W c1"

text \<open>A reply that approves the request with a key that is \<^verbatim>\<open>null\<close>.\<close>

fun null_key_reply :: "reply \<Rightarrow> bool" where
  "null_key_reply (Resp r) =
     (status_code r = 200 \<and>
      (case body r of Inr (JDict d) \<Rightarrow> map_of d ''api_key'' = Some JNull | _ \<Rightarrow> False))"
| "null_key_reply (Fail e) = False"

definition no_null_key :: "world \<Rightarrow> bool" where
  "no_null_key w = (\<not> list_ex null_key_reply (pending w))"

subsection \<open>Tables and test fixtures\<close>

text \<open>The read operations of the client, each with the sub-path it requests.\<close>

definition read_operations :: "(string \<times> (client \<Rightarrow> world \<Rightarrow> json run)) list" where
  "read_operations =
     [(''api/version'', get_printer_version),
      (''api/printer'', get_printer_status),
      (''api/connection'', get_printer_connection),
      (''api/files?recursive=true'', get_printer_files),
      (''api/job'', get_printer_job),
      (''api/printer/tool'', get_printer_tool_state),
      (''api/printer/bed'', get_printer_bed_state),
      (''api/printer/chamber'', get_printer_chamber_state),
      (''api/printer/sd'', get_printer_sd_state),
      (''api/printerprofiles'', get_printer_profiles),
      (''api/settings'', get_printer_settings),
      (''api/slicing'', get_slicing),
      (''api/system/commands'', get_system_commands),
      (''api/timelapse'', get_timelapse),
      (''api/plugin/appkeys'', retrieve_appkeys)]"

text \<open>A world in which nothing has happened yet and the given replies are to come.\<close>

definition fresh :: "reply list \<Rightarrow> world" where
  "fresh replies = \<lparr>pending = replies, sent = [], stdout = [], slept = 0\<rparr>"

text \<open>The URLs of the requests sent between two states of the world.\<close>

definition new_urls :: "world \<Rightarrow> world \<Rightarrow> string list" where
  "new_urls w w1 = map req_url (drop (length (sent w)) (sent w1))"

section \<open>Basic facts\<close>

lemmas read_defs =
  get_printer_version_def get_printer_status_def get_printer_connection_def
  get_printer_files_def get_printer_job_def get_printer_tool_state_def
  get_printer_bed_state_def get_printer_chamber_state_def get_printer_sd_state_def
  get_printer_profiles_def get_printer_settings_def get_slicing_def
  get_system_commands_def get_timelapse_def retrieve_appkeys_def

lemmas request_defs =
  probe_request_def token_request_def poll_request_def revoke_request_def
  read_request_def job_command_def settings_request_def

lemma http_Cons:
  "pending w = r # rs \<Longrightarrow> http rq w = Some (r, w\<lparr>pending := rs, sent := sent w @ [rq]\<rparr>)"
  by (simp add: http_def)

lemma http_Nil: "pending w = [] \<Longrightarrow> http rq w = None"
  by (simp add: http_def)

lemma init_h_81:
  "init ''h'' 81 ''/x/'' =
     \<lparr>base_url = ''http://h:81/x/'', headers = [], api_key = JNull, connected = False\<rparr>"
  by (simp add: init_def str_int_def str_nat.simps)

lemma read_operations_get_json:
  "(sub_path, oper) \<in> set read_operations \<Longrightarrow> oper = get_json sub_path"
  by (auto simp: read_operations_def read_defs)

lemma get_json_undecodable:
  assumes "pending w = Resp r # rest" and "body r = Inl e"
  shows "get_json sub_path c w =
           Some (if e = ValueError then Inr (JBool False) else Inl e, c,
                 w\<lparr>pending := rest, sent := sent w @ [read_request sub_path c]\<rparr>)"
  using assms by (cases e) (simp_all add: get_json_def http_Cons response_json_def)

subsection \<open>One turn of the polling loop\<close>

lemma wait_for_user_other:
  "status_code r \<noteq> 202 \<Longrightarrow> wait_for_user c u t r w = Some (Inr False, c, w)"
  by (subst wait_for_user.simps) simp

lemma wait_for_user_202:
  assumes "status_code r = 202" and "pending w = Resp r1 # rest"
    and "status_code r1 = 202"
  shows "wait_for_user c u t r w =
           wait_for_user c u t r1
             (w\<lparr>pending := rest, sent := sent w @ [poll_request c u t], slept := Suc (slept w)\<rparr>)"
  using assms by (subst wait_for_user.simps) (simp add: http_Cons sleep_def)

lemma wait_for_user_200:
  assumes "status_code r = 202" and "pending w = Resp r1 # rest"
    and "status_code r1 = 200" and "body r1 = Inr (JDict d)"
    and "map_of d ''api_key'' = Some key"
  shows "wait_for_user c u t r w =
           Some (Inr True,
                 c\<lparr>api_key := key, headers := [(''X-Api-Key'', key)], connected := True\<rparr>,
                 w\<lparr>pending := rest, sent := sent w @ [poll_request c u t], slept := Suc (slept w)\<rparr>)"
  using assms
  by (subst wait_for_user.simps)
     (simp add: http_Cons sleep_def response_json_def getitem_def set_api_key_def)

lemma wait_for_user_404:
  assumes "status_code r = 202" and "pending w = Resp r1 # rest"
    and "status_code r1 = 404"
  shows "wait_for_user c u t r w =
           Some (Inl (Exception ''User denied access''), c,
                 w\<lparr>pending := rest, sent := sent w @ [poll_request c u t], slept := Suc (slept w)\<rparr>)"
  using assms by (subst wait_for_user.simps) (simp add: http_Cons sleep_def)

text \<open>
  The handshake up to its first poll: with the probe answered 204 and the token request
  answered 201 with a string \<^verbatim>\<open>app_token\<close>, the rest of the run is the loop entered
  with the response of the first poll.
\<close>

lemma get_api_key_first_poll:
  assumes "pending w = Resp r0 # Resp r1 # Resp p1 # rest"
    and "status_code r0 = 204" and "status_code r1 = 201"
    and "body r1 = Inr (JDict d)" and "map_of d ''app_token'' = Some (JStr tok)"
  shows "get_api_key app_name user_name t c w =
           wait_for_user c (base_url c @ ''plugin/appkeys/request/'' @ tok) t p1
             (w\<lparr>pending := rest,
                sent := sent w @ [probe_request c t, token_request app_name user_name c t,
                  poll_request c (base_url c @ ''plugin/appkeys/request/'' @ tok) t]\<rparr>)"
  using assms
  by (simp add: get_api_key_def http_Cons response_json_def getitem_def str_add_def)

section \<open>The credential\<close>

text \<open>
  Claim C9. \<^verbatim>\<open>_set_api_key\<close> is idempotent: for every key and every client state,
  assigning the key a second time returns the same value and leaves the same state,
  header set included, as assigning it once.
\<close>

theorem set_api_key_idempotent:
  "set_api_key key (snd (set_api_key key c)) = set_api_key key c"
  by (simp add: set_api_key_def)

section \<open>Revocation\<close>

text \<open>
  Claim C4. In every client state, when the transport answers the revoke request with a
  response of status 204, \<^verbatim>\<open>deregister\<close> sets \<open>connected\<close> to false and returns
  true; when the response has any other status, it leaves the client as it was and
  returns false.
\<close>

theorem deregister_status:
  assumes "pending w = Resp r # rest"
  shows "(status_code r = 204 \<longrightarrow>
            deregister c w =
              Some (Inr True, c\<lparr>connected := False\<rparr>,
                    w\<lparr>pending := rest, sent := sent w @ [revoke_request c]\<rparr>)) \<and>
         (status_code r \<noteq> 204 \<longrightarrow>
            deregister c w =
              Some (Inr False, c, w\<lparr>pending := rest, sent := sent w @ [revoke_request c]\<rparr>))"
  using assms by (simp add: deregister_def http_Cons)

theorem deregister_status_witness:
  "deregister
     \<lparr>base_url = ''http://h:81/x/'', headers = [(''X-Api-Key'', JStr ''key'')],
      api_key = JStr ''key'', connected = True\<rparr>
     (fresh [Resp \<lparr>status_code = 204, body = Inl ValueError\<rparr>]) =
   Some (Inr True,
         \<lparr>base_url = ''http://h:81/x/'', headers = [(''X-Api-Key'', JStr ''key'')],
          api_key = JStr ''key'', connected = False\<rparr>,
         \<lparr>pending = [],
          sent = [\<lparr>req_method = POST, req_url = ''http://h:81/x/api/plugin/appkeys'',
                   req_headers = [(''X-Api-Key'', JStr ''key'')],
                   req_json = Some (JDict [(''command'', JStr ''revoke''), (''key'', JStr ''key'')]),
                   req_timeout = 1\<rparr>],
          stdout = [], slept = 0\<rparr>) \<and>
   deregister
     \<lparr>base_url = ''http://h:81/x/'', headers = [(''X-Api-Key'', JStr ''key'')],
      api_key = JStr ''key'', connected = True\<rparr>
     (fresh [Resp \<lparr>status_code = 403, body = Inl ValueError\<rparr>]) =
   Some (Inr False,
         \<lparr>base_url = ''http://h:81/x/'', headers = [(''X-Api-Key'', JStr ''key'')],
          api_key = JStr ''key'', connected = True\<rparr>,
         \<lparr>pending = [],
          sent = [\<lparr>req_method = POST, req_url = ''http://h:81/x/api/plugin/appkeys'',
                   req_headers = [(''X-Api-Key'', JStr ''key'')],
                   req_json = Some (JDict [(''command'', JStr ''revoke''), (''key'', JStr ''key'')]),
                   req_timeout = 1\<rparr>],
          stdout = [], slept = 0\<rparr>)"
  using
    deregister_status
      [where w = "fresh [Resp \<lparr>status_code = 204, body = Inl ValueError\<rparr>]"
         and r = "\<lparr>status_code = 204, body = Inl ValueError\<rparr>" and rest = "[]"
         and c = "\<lparr>base_url = ''http://h:81/x/'', headers = [(''X-Api-Key'', JStr ''key'')],
                    api_key = JStr ''key'', connected = True\<rparr>"]
    deregister_status
      [where w = "fresh [Resp \<lparr>status_code = 403, body = Inl ValueError\<rparr>]"
         and r = "\<lparr>status_code = 403, body = Inl ValueError\<rparr>" and rest = "[]"
         and c = "\<lparr>base_url = ''http://h:81/x/'', headers = [(''X-Api-Key'', JStr ''key'')],
                    api_key = JStr ''key'', connected = True\<rparr>"]
  by (simp add: fresh_def revoke_request_def)

text \<open>
  Claim C5 says that \<^verbatim>\<open>deregister\<close> sends its revoke request only when a key is
  stored. The source has no such test: a client that was just constructed, with no key,
  sends the request all the same, with \<^verbatim>\<open>None\<close> as the key.
\<close>

theorem deregister_without_key_counterexample:
  "api_key (init ''h'' 81 ''/x/'') = JNull \<and>
   deregister (init ''h'' 81 ''/x/'') (fresh [Resp \<lparr>status_code = 204, body = Inl ValueError\<rparr>]) =
   Some (Inr True,
         \<lparr>base_url = ''http://h:81/x/'', headers = [], api_key = JNull, connected = False\<rparr>,
         \<lparr>pending = [],
          sent = [\<lparr>req_method = POST, req_url = ''http://h:81/x/api/plugin/appkeys'',
                   req_headers = [],
                   req_json = Some (JDict [(''command'', JStr ''revoke''), (''key'', JNull)]),
                   req_timeout = 1\<rparr>],
          stdout = [], slept = 0\<rparr>)"
  by (simp add: init_h_81 fresh_def deregister_def http_def revoke_request_def)

text \<open>
  Claim C5, amended. Whether or not a key is stored, \<^verbatim>\<open>deregister\<close> sends exactly
  one request whenever the transport has a reply for it: the POST of the body
  \<^verbatim>\<open>{command: "revoke", key: <api_key>}\<close> to the sub-path \<^verbatim>\<open>api/plugin/appkeys\<close>,
  where the key is whatever the client holds, \<^verbatim>\<open>None\<close> when it holds none.
\<close>

theorem deregister_always_posts:
  assumes "pending w = r # rest"
  shows "\<exists>res c1 w1. deregister c w = Some (res, c1, w1) \<and> pending w1 = rest \<and>
           sent w1 = sent w @
             [\<lparr>req_method = POST, req_url = base_url c @ ''api/plugin/appkeys'',
               req_headers = headers c,
               req_json = Some (JDict [(''command'', JStr ''revoke''), (''key'', api_key c)]),
               req_timeout = 1\<rparr>]"
proof (cases r)
  case (Resp rs)
  with assms show ?thesis
    by (simp add: deregister_def http_Cons revoke_request_def)
next
  case (Fail e)
  with assms show ?thesis
    by (cases e) (simp_all add: deregister_def http_Cons revoke_request_def print_def)
qed

theorem deregister_always_posts_witness:
  "\<exists>res c1 w1.
     deregister (init ''h'' 81 ''/x/'') (fresh [Fail (ConnectionError ''refused'')]) =
       Some (res, c1, w1) \<and> pending w1 = [] \<and>
     sent w1 =
       [\<lparr>req_method = POST, req_url = ''http://h:81/x/api/plugin/appkeys'',
         req_headers = [],
         req_json = Some (JDict [(''command'', JStr ''revoke''), (''key'', JNull)]),
         req_timeout = 1\<rparr>]"
  using deregister_always_posts
    [where w = "fresh [Fail (ConnectionError ''refused'')]"
       and r = "Fail (ConnectionError ''refused'')" and rest = "[]"
       and c = "init ''h'' 81 ''/x/''"]
  by (simp add: fresh_def init_h_81)

section \<open>Commands\<close>

text \<open>
  Claim C6. In every state with \<open>connected\<close> false, \<^verbatim>\<open>pause_print\<close> and
  \<^verbatim>\<open>resume_print\<close> return \<^verbatim>\<open>False\<close>, leave every field of the client as it was and
  leave the world as it was: the list of requests sent has not grown, so no HTTP
  request was issued.
\<close>

theorem command_not_connected:
  "\<not> connected c \<Longrightarrow>
     pause_print c w = Some (Inr PFalse, c, w) \<and> resume_print c w = Some (Inr PFalse, c, w)"
  by (simp add: pause_print_def resume_print_def)

theorem command_not_connected_witness:
  "\<not> connected (init ''h'' 81 ''/x/'') \<and>
   pause_print (init ''h'' 81 ''/x/'') (fresh [Resp \<lparr>status_code = 204, body = Inl ValueError\<rparr>]) =
     Some (Inr PFalse, init ''h'' 81 ''/x/'', fresh [Resp \<lparr>status_code = 204, body = Inl ValueError\<rparr>]) \<and>
   resume_print (init ''h'' 81 ''/x/'') (fresh [Resp \<lparr>status_code = 204, body = Inl ValueError\<rparr>]) =
     Some (Inr PFalse, init ''h'' 81 ''/x/'', fresh [Resp \<lparr>status_code = 204, body = Inl ValueError\<rparr>]) \<and>
   sent (fresh [Resp \<lparr>status_code = 204, body = Inl ValueError\<rparr>]) = []"
proof -
  have h: "\<not> connected (init ''h'' 81 ''/x/'')"
    by (simp add: init_def)
  show ?thesis
    using h command_not_connected [OF h, of "fresh [Resp \<lparr>status_code = 204, body = Inl ValueError\<rparr>]"]
    by (simp add: fresh_def)
qed

section \<open>Read operations\<close>

text \<open>
  Claim C3 says that every read operation returns the sentinel \<^verbatim>\<open>False\<close>, and raises
  nothing, on every response whose body fails to parse. The read operations catch
  \<^verbatim>\<open>ValueError\<close> only. On a body nested too deeply the decoder fails with a
  \<^verbatim>\<open>RecursionError\<close>, which is no \<^verbatim>\<open>ValueError\<close>, and the operation raises it
  to the caller.
\<close>

theorem read_recursion_error_counterexample:
  "get_timelapse (init ''h'' 81 ''/x/'')
     (fresh [Resp \<lparr>status_code = 200, body = Inl (OtherError ''RecursionError'')\<rparr>]) =
   Some (Inl (OtherError ''RecursionError''),
         \<lparr>base_url = ''http://h:81/x/'', headers = [], api_key = JNull, connected = False\<rparr>,
         \<lparr>pending = [],
          sent = [\<lparr>req_method = GET, req_url = ''http://h:81/x/api/timelapse'',
                   req_headers = [], req_json = None, req_timeout = 9\<rparr>],
          stdout = [], slept = 0\<rparr>)"
  by (simp add: get_timelapse_def get_json_def http_def fresh_def init_h_81 response_json_def
        read_request_def)

text \<open>
  Claim C3, amended. For every read operation of the client (version, printer status,
  connection, files, job, tool, bed, chamber, sd, printer profiles, settings, slicing,
  system commands, timelapse, appkeys list) and every response whose body fails to
  parse, the operation returns the sentinel \<^verbatim>\<open>False\<close> and raises nothing when the
  decoder fails with a \<^verbatim>\<open>ValueError\<close>, as it does on a body that is not JSON; when
  the decoder fails with an exception of any other class, the operation raises that
  exception. The client is left as it was in both cases.
\<close>

theorem read_undecodable_body:
  assumes "(sub_path, oper) \<in> set read_operations"
    and "pending w = Resp r # rest"
    and "body r = Inl e"
  shows "oper c w =
           Some (if e = ValueError then Inr (JBool False) else Inl e, c,
                 w\<lparr>pending := rest, sent := sent w @ [read_request sub_path c]\<rparr>)"
proof -
  have "oper = get_json sub_path"
    using assms(1) by (rule read_operations_get_json)
  then show ?thesis
    using assms(2,3) by (simp add: get_json_undecodable)
qed

theorem read_undecodable_body_witness:
  "length read_operations = 15 \<and>
   get_printer_version (init ''h'' 81 ''/x/'')
     (fresh [Resp \<lparr>status_code = 200, body = Inl ValueError\<rparr>]) =
   Some (Inr (JBool False), init ''h'' 81 ''/x/'',
         \<lparr>pending = [],
          sent = [\<lparr>req_method = GET, req_url = ''http://h:81/x/api/version'',
                   req_headers = [], req_json = None, req_timeout = 9\<rparr>],
          stdout = [], slept = 0\<rparr>) \<and>
   retrieve_appkeys (init ''h'' 81 ''/x/'')
     (fresh [Resp \<lparr>status_code = 200, body = Inl (OtherError ''RecursionError'')\<rparr>]) =
   Some (Inl (OtherError ''RecursionError''), init ''h'' 81 ''/x/'',
         \<lparr>pending = [],
          sent = [\<lparr>req_method = GET, req_url = ''http://h:81/x/api/plugin/appkeys'',
                   req_headers = [], req_json = None, req_timeout = 9\<rparr>],
          stdout = [], slept = 0\<rparr>)"
proof -
  have m1: "(''api/version'', get_printer_version) \<in> set read_operations"
    and m2: "(''api/plugin/appkeys'', retrieve_appkeys) \<in> set read_operations"
    by (simp_all add: read_operations_def)
  have p1: "pending (fresh [Resp \<lparr>status_code = 200, body = Inl ValueError\<rparr>]) =
              Resp \<lparr>status_code = 200, body = Inl ValueError\<rparr> # []"
    and p2: "pending (fresh [Resp \<lparr>status_code = 200, body = Inl (OtherError ''RecursionError'')\<rparr>]) =
               Resp \<lparr>status_code = 200, body = Inl (OtherError ''RecursionError'')\<rparr> # []"
    by (simp_all add: fresh_def)
  have b1: "body \<lparr>status_code = 200, body = Inl ValueError\<rparr> = Inl ValueError"
    and b2: "body \<lparr>status_code = 200, body = Inl (OtherError ''RecursionError'')\<rparr> =
               Inl (OtherError ''RecursionError'')"
    by simp_all
  show ?thesis
    using read_undecodable_body [OF m1 p1 b1, of "init ''h'' 81 ''/x/''"]
      read_undecodable_body [OF m2 p2 b2, of "init ''h'' 81 ''/x/''"]
    by (simp add: fresh_def init_h_81 read_request_def read_operations_def)
qed

section \<open>The handshake\<close>

text \<open>
  Claim C1 says that a handshake whose polls are answered 202, 202 and 200 issues exactly
  four requests: probe, request, poll, poll. Each of the three answers belongs to a poll
  of its own, so the run below issues five requests, three of them polls.
\<close>

theorem handshake_four_requests_counterexample:
  "map_option (\<lambda>(res, c1, w1). (res, api_key c1, connected c1, length (sent w1),
       map (\<lambda>rq. (req_method rq, req_url rq)) (sent w1)))
     (get_api_key ''app'' None 9 (init ''h'' 81 ''/x/'')
        (fresh [Resp \<lparr>status_code = 204, body = Inl ValueError\<rparr>,
                Resp \<lparr>status_code = 201, body = Inr (JDict [(''app_token'', JStr ''tok'')])\<rparr>,
                Resp \<lparr>status_code = 202, body = Inl ValueError\<rparr>,
                Resp \<lparr>status_code = 202, body = Inl ValueError\<rparr>,
                Resp \<lparr>status_code = 200, body = Inr (JDict [(''api_key'', JStr ''key'')])\<rparr>])) =
   Some (Inr True, JStr ''key'', True, 5,
         [(GET, ''http://h:81/x/plugin/appkeys/probe''),
          (POST, ''http://h:81/x/plugin/appkeys/request''),
          (GET, ''http://h:81/x/plugin/appkeys/request/tok''),
          (GET, ''http://h:81/x/plugin/appkeys/request/tok''),
          (GET, ''http://h:81/x/plugin/appkeys/request/tok'')])"
  by (simp add: get_api_key_def http_def fresh_def init_h_81 wait_for_user.simps
        response_json_def getitem_def str_add_def sleep_def set_api_key_def request_defs)

text \<open>
  Claim C1, amended. If the probe is answered with status 204, the token request with
  status 201 and a body holding a string \<^verbatim>\<open>app_token\<close>, and the successive polls with
  statuses 202, 202 and 200, the last body holding an \<^verbatim>\<open>api_key\<close>, then
  \<^verbatim>\<open>get_api_key\<close> returns true, stores that key through \<^verbatim>\<open>_set_api_key\<close>, sets
  \<open>connected\<close>, and issues exactly five requests in the order probe, request, poll,
  poll, poll, one poll for each answer.
\<close>

theorem handshake_pending_pending_approved:
  assumes "pending w = Resp r0 # Resp r1 # Resp p1 # Resp p2 # Resp p3 # rest"
    and "status_code r0 = 204" and "status_code r1 = 201"
    and "body r1 = Inr (JDict d)" and "map_of d ''app_token'' = Some (JStr tok)"
    and "status_code p1 = 202" and "status_code p2 = 202" and "status_code p3 = 200"
    and "body p3 = Inr (JDict d3)" and "map_of d3 ''api_key'' = Some key"
  shows "get_api_key app_name user_name t c w =
           Some (Inr True,
                 snd (set_api_key key c)\<lparr>connected := True\<rparr>,
                 w\<lparr>pending := rest,
                   sent := sent w @ [probe_request c t, token_request app_name user_name c t,
                     poll_request c (base_url c @ ''plugin/appkeys/request/'' @ tok) t,
                     poll_request c (base_url c @ ''plugin/appkeys/request/'' @ tok) t,
                     poll_request c (base_url c @ ''plugin/appkeys/request/'' @ tok) t],
                   slept := slept w + 2\<rparr>)"
proof -
  let ?u = "base_url c @ ''plugin/appkeys/request/'' @ tok"
  let ?w3 = "w\<lparr>pending := Resp p2 # Resp p3 # rest,
                sent := sent w @ [probe_request c t, token_request app_name user_name c t,
                  poll_request c ?u t]\<rparr>"
  let ?w4 = "?w3\<lparr>pending := Resp p3 # rest, sent := sent ?w3 @ [poll_request c ?u t],
                slept := Suc (slept ?w3)\<rparr>"
  have "get_api_key app_name user_name t c w = wait_for_user c ?u t p1 ?w3"
    using assms(1-5) by (rule get_api_key_first_poll)
  also have "\<dots> = wait_for_user c ?u t p2 ?w4"
    using assms(6,7) by (intro wait_for_user_202) simp_all
  also have "\<dots> = Some (Inr True,
      c\<lparr>api_key := key, headers := [(''X-Api-Key'', key)], connected := True\<rparr>,
      ?w4\<lparr>pending := rest, sent := sent ?w4 @ [poll_request c ?u t], slept := Suc (slept ?w4)\<rparr>)"
    using assms(7-10) by (intro wait_for_user_200) simp_all
  finally show ?thesis by (simp add: set_api_key_def)
qed

theorem handshake_pending_pending_approved_witness:
  "get_api_key ''hass'' (Some ''admin'') 9 (init ''h'' 81 ''/x/'')
     (fresh [Resp \<lparr>status_code = 204, body = Inl ValueError\<rparr>,
             Resp \<lparr>status_code = 201, body = Inr (JDict [(''app_token'', JStr ''abc'')])\<rparr>,
             Resp \<lparr>status_code = 202, body = Inr (JDict [])\<rparr>,
             Resp \<lparr>status_code = 202, body = Inr (JDict [])\<rparr>,
             Resp \<lparr>status_code = 200, body = Inr (JDict [(''api_key'', JStr ''K1'')])\<rparr>]) =
   Some (Inr True,
         \<lparr>base_url = ''http://h:81/x/'', headers = [(''X-Api-Key'', JStr ''K1'')],
          api_key = JStr ''K1'', connected = True\<rparr>,
         \<lparr>pending = [],
          sent = [\<lparr>req_method = GET, req_url = ''http://h:81/x/plugin/appkeys/probe'',
                   req_headers = [], req_json = None, req_timeout = 9\<rparr>,
                  \<lparr>req_method = POST, req_url = ''http://h:81/x/plugin/appkeys/request'',
                   req_headers = [],
                   req_json = Some (JDict [(''app'', JStr ''hass''), (''user'', JStr ''admin'')]),
                   req_timeout = 9\<rparr>,
                  \<lparr>req_method = GET, req_url = ''http://h:81/x/plugin/appkeys/request/abc'',
                   req_headers = [], req_json = None, req_timeout = 9\<rparr>,
                  \<lparr>req_method = GET, req_url = ''http://h:81/x/plugin/appkeys/request/abc'',
                   req_headers = [], req_json = None, req_timeout = 9\<rparr>,
                  \<lparr>req_method = GET, req_url = ''http://h:81/x/plugin/appkeys/request/abc'',
                   req_headers = [], req_json = None, req_timeout = 9\<rparr>],
          stdout = [], slept = 2\<rparr>)"
  using handshake_pending_pending_approved
    [where w = "fresh [Resp \<lparr>status_code = 204, body = Inl ValueError\<rparr>,
             Resp \<lparr>status_code = 201, body = Inr (JDict [(''app_token'', JStr ''abc'')])\<rparr>,
             Resp \<lparr>status_code = 202, body = Inr (JDict [])\<rparr>,
             Resp \<lparr>status_code = 202, body = Inr (JDict [])\<rparr>,
             Resp \<lparr>status_code = 200, body = Inr (JDict [(''api_key'', JStr ''K1'')])\<rparr>]"
       and ?r0.0 = "\<lparr>status_code = 204, body = Inl ValueError\<rparr>"
       and ?r1.0 = "\<lparr>status_code = 201, body = Inr (JDict [(''app_token'', JStr ''abc'')])\<rparr>"
       and ?p1.0 = "\<lparr>status_code = 202, body = Inr (JDict [])\<rparr>"
       and ?p2.0 = "\<lparr>status_code = 202, body = Inr (JDict [])\<rparr>"
       and ?p3.0 = "\<lparr>status_code = 200, body = Inr (JDict [(''api_key'', JStr ''K1'')])\<rparr>"
       and rest = "[]" and d = "[(''app_token'', JStr ''abc'')]" and tok = "''abc''"
       and ?d3.0 = "[(''api_key'', JStr ''K1'')]" and key = "JStr ''K1''"
       and app_name = "''hass''" and user_name = "Some ''admin''" and t = 9
       and c = "init ''h'' 81 ''/x/''"]
  by (simp add: fresh_def init_h_81 request_defs set_api_key_def)

text \<open>
  Claim C2 says that every handshake in which a poll is answered 404 fails with the
  error of a denied request. The loop raises that error for a 404 that follows a 202;
  a 404 on the first poll never enters the loop, and the run below reaches the final
  \<^verbatim>\<open>return False\<close> with no error raised. The client is left as it was.
\<close>

theorem first_poll_denied_returns_False:
  "get_api_key ''app'' None 9 (init ''h'' 81 ''/x/'')
     (fresh [Resp \<lparr>status_code = 204, body = Inl ValueError\<rparr>,
             Resp \<lparr>status_code = 201, body = Inr (JDict [(''app_token'', JStr ''tok'')])\<rparr>,
             Resp \<lparr>status_code = 404, body = Inl ValueError\<rparr>]) =
   Some (Inr False,
         \<lparr>base_url = ''http://h:81/x/'', headers = [], api_key = JNull, connected = False\<rparr>,
         \<lparr>pending = [],
          sent = [\<lparr>req_method = GET, req_url = ''http://h:81/x/plugin/appkeys/probe'',
                   req_headers = [], req_json = None, req_timeout = 9\<rparr>,
                  \<lparr>req_method = POST, req_url = ''http://h:81/x/plugin/appkeys/request'',
                   req_headers = [],
                   req_json = Some (JDict [(''app'', JStr ''app''), (''user'', JNull)]),
                   req_timeout = 9\<rparr>,
                  \<lparr>req_method = GET, req_url = ''http://h:81/x/plugin/appkeys/request/tok'',
                   req_headers = [], req_json = None, req_timeout = 9\<rparr>],
          stdout = [], slept = 0\<rparr>)"
  by (simp add: get_api_key_def http_def fresh_def init_h_81 wait_for_user.simps
        response_json_def getitem_def str_add_def request_defs)

text \<open>
  Claim C8. If the probe is answered with status 204, the token request with status 201
  (its body holding the string \<^verbatim>\<open>app_token\<close> the poll is made with) and the very first
  poll with status 200, then \<^verbatim>\<open>get_api_key\<close> returns false after these three requests
  and stores nothing: the client, \<open>api_key\<close> and \<open>connected\<close> included, is as it was,
  whatever the body of the approving response holds.
\<close>

theorem immediate_approval_returns_False:
  assumes "pending w = Resp r0 # Resp r1 # Resp p1 # rest"
    and "status_code r0 = 204" and "status_code r1 = 201"
    and "body r1 = Inr (JDict d)" and "map_of d ''app_token'' = Some (JStr tok)"
    and "status_code p1 = 200"
  shows "get_api_key app_name user_name t c w =
           Some (Inr False, c,
                 w\<lparr>pending := rest,
                   sent := sent w @ [probe_request c t, token_request app_name user_name c t,
                     poll_request c (base_url c @ ''plugin/appkeys/request/'' @ tok) t]\<rparr>)"
  using assms(6) by (simp add: get_api_key_first_poll [OF assms(1-5)] wait_for_user_other)

theorem immediate_approval_returns_False_witness:
  "get_api_key ''app'' None 9 (init ''h'' 81 ''/x/'')
     (fresh [Resp \<lparr>status_code = 204, body = Inl ValueError\<rparr>,
             Resp \<lparr>status_code = 201, body = Inr (JDict [(''app_token'', JStr ''tok'')])\<rparr>,
             Resp \<lparr>status_code = 200, body = Inr (JDict [(''api_key'', JStr ''key'')])\<rparr>]) =
   Some (Inr False,
         \<lparr>base_url = ''http://h:81/x/'', headers = [], api_key = JNull, connected = False\<rparr>,
         \<lparr>pending = [],
          sent = [\<lparr>req_method = GET, req_url = ''http://h:81/x/plugin/appkeys/probe'',
                   req_headers = [], req_json = None, req_timeout = 9\<rparr>,
                  \<lparr>req_method = POST, req_url = ''http://h:81/x/plugin/appkeys/request'',
                   req_headers = [],
                   req_json = Some (JDict [(''app'', JStr ''app''), (''user'', JNull)]),
                   req_timeout = 9\<rparr>,
                  \<lparr>req_method = GET, req_url = ''http://h:81/x/plugin/appkeys/request/tok'',
                   req_headers = [], req_json = None, req_timeout = 9\<rparr>],
          stdout = [], slept = 0\<rparr>)"
  using immediate_approval_returns_False
    [where w = "fresh [Resp \<lparr>status_code = 204, body = Inl ValueError\<rparr>,
             Resp \<lparr>status_code = 201, body = Inr (JDict [(''app_token'', JStr ''tok'')])\<rparr>,
             Resp \<lparr>status_code = 200, body = Inr (JDict [(''api_key'', JStr ''key'')])\<rparr>]"
       and ?r0.0 = "\<lparr>status_code = 204, body = Inl ValueError\<rparr>"
       and ?r1.0 = "\<lparr>status_code = 201, body = Inr (JDict [(''app_token'', JStr ''tok'')])\<rparr>"
       and ?p1.0 = "\<lparr>status_code = 200, body = Inr (JDict [(''api_key'', JStr ''key'')])\<rparr>"
       and rest = "[]" and d = "[(''app_token'', JStr ''tok'')]" and tok = "''tok''"
       and app_name = "''app''" and user_name = None and t = 9
       and c = "init ''h'' 81 ''/x/''"]
  by (simp add: fresh_def init_h_81 request_defs)

section \<open>What every run of an operation does\<close>

lemma http_SomeD:
  "http rq w = Some (r, w1) \<Longrightarrow>
     pending w = r # pending w1 \<and> sent w1 = sent w @ [rq]"
  by (auto simp: http_def split: list.splits)

lemma no_null_key_http:
  "http rq w = Some (r, w1) \<Longrightarrow> no_null_key w \<Longrightarrow> \<not> null_key_reply r \<and> no_null_key w1"
  by (auto simp: http_def no_null_key_def split: list.splits)

lemma no_null_key_sleep [simp]: "no_null_key (sleep w) = no_null_key w"
  by (simp add: no_null_key_def sleep_def)

lemma pending_sleep [simp]: "pending (sleep w) = pending w"
  by (simp add: sleep_def)

lemma sent_sleep [simp]: "sent (sleep w) = sent w"
  by (simp add: sleep_def)

lemma approved_key_not_null:
  assumes "\<not> null_key_reply (Resp r)" and "status_code r = 200"
    and "response_json r = Inr j" and "getitem j ''api_key'' = Inr key"
  shows "key \<noteq> JNull"
  using assms
  by (auto simp: response_json_def getitem_def split: sum.splits json.splits option.splits)

lemma wait_for_user_cases [consumes 2, case_names fail approved bad_body denied again]:
  assumes "status_code r = 202" and "wait_for_user c u t r w = Some (res, c1, w1)"
  obtains
    e where "http (poll_request c u t) w = Some (Fail e, w1)" and "res = Inl e" and "c1 = c"
  | r1 w' j key where "http (poll_request c u t) w = Some (Resp r1, w')"
      and "status_code r1 = 200" and "response_json r1 = Inr j"
      and "getitem j ''api_key'' = Inr key" and "res = Inr True"
      and "c1 = snd (set_api_key key c)\<lparr>connected := True\<rparr>" and "w1 = sleep w'"
  | r1 w' e where "http (poll_request c u t) w = Some (Resp r1, w')"
      and "status_code r1 = 200" and "res = Inl e" and "c1 = c" and "w1 = sleep w'"
  | r1 w' where "http (poll_request c u t) w = Some (Resp r1, w')"
      and "status_code r1 = 404" and "res = Inl (Exception ''User denied access'')"
      and "c1 = c" and "w1 = sleep w'"
  | r1 w' where "http (poll_request c u t) w = Some (Resp r1, w')"
      and "status_code r1 \<noteq> 200" and "status_code r1 \<noteq> 404"
      and "wait_for_user c u t r1 (sleep w') = Some (res, c1, w1)"
  using assms
  by (subst (asm) wait_for_user.simps)
     (auto split: if_splits option.splits reply.splits sum.splits simp: Let_def)


lemma wait_for_user_key:
  "wait_for_user c u t r w = Some (res, c1, w1) \<Longrightarrow> no_null_key w \<Longrightarrow>
     c1 = c \<or> (connected c1 \<and> api_key c1 \<noteq> JNull)"
proof (induction "length (pending w)" arbitrary: r w rule: less_induct)
  case less
  show ?case
  proof (cases "status_code r = 202")
    case False
    with less.prems show ?thesis
      by (simp add: wait_for_user_other)
  next
    case True
    from True less.prems(1) show ?thesis
    proof (cases rule: wait_for_user_cases)
      case (approved r1 w' j key)
      from approved(1) less.prems(2) have "\<not> null_key_reply (Resp r1)"
        by (auto dest: no_null_key_http)
      then have "key \<noteq> JNull"
        using approved(2-4) by (rule approved_key_not_null)
      with approved(6) show ?thesis
        by (simp add: set_api_key_def)
    next
      case (again r1 w')
      from again(1) have "length (pending (sleep w')) < length (pending w)"
        by (auto dest: http_SomeD)
      moreover from again(1) less.prems(2) have "no_null_key (sleep w')"
        by (auto dest: no_null_key_http)
      ultimately show ?thesis
        using again(4) by (intro less.hyps)
    qed auto
  qed
qed



lemma new_urls_append: "sent w1 = sent w @ rqs \<Longrightarrow> new_urls w w1 = map req_url rqs"
  by (simp add: new_urls_def)

lemma sent_print [simp]: "sent (print line w) = sent w"
  by (simp add: print_def)

lemma get_api_key_cases [consumes 1, case_names probe_failed no_plugin request_failed
    not_created bad_token poll_failed polling]:
  assumes run: "get_api_key a un t c w = Some (res, c1, w1)"
    and probe_failed: "\<And>e. http (probe_request c t) w = Some (Fail e, w1) \<Longrightarrow> c1 = c \<Longrightarrow> thesis"
    and no_plugin: "\<And>r. http (probe_request c t) w = Some (Resp r, w1) \<Longrightarrow>
        status_code r \<noteq> 204 \<Longrightarrow>
        res = Inl (Exception ''Instance does not seem to support Application Keys Plugin'') \<Longrightarrow>
        c1 = c \<Longrightarrow> thesis"
    and request_failed: "\<And>r wa e. http (probe_request c t) w = Some (Resp r, wa) \<Longrightarrow>
        http (token_request a un c t) wa = Some (Fail e, w1) \<Longrightarrow> res = Inl e \<Longrightarrow>
        c1 = c \<Longrightarrow> thesis"
    and not_created: "\<And>r wa r2. http (probe_request c t) w = Some (Resp r, wa) \<Longrightarrow>
        http (token_request a un c t) wa = Some (Resp r2, w1) \<Longrightarrow> status_code r2 \<noteq> 201 \<Longrightarrow>
        res = Inl (Exception ''User not created'') \<Longrightarrow> c1 = c \<Longrightarrow> thesis"
    and bad_token: "\<And>r wa r2 e. http (probe_request c t) w = Some (Resp r, wa) \<Longrightarrow>
        http (token_request a un c t) wa = Some (Resp r2, w1) \<Longrightarrow> status_code r2 = 201 \<Longrightarrow>
        res = Inl e \<Longrightarrow> c1 = c \<Longrightarrow> thesis"
    and poll_failed: "\<And>r wa r2 wb tok e. http (probe_request c t) w = Some (Resp r, wa) \<Longrightarrow>
        http (token_request a un c t) wa = Some (Resp r2, wb) \<Longrightarrow>
        http (poll_request c (base_url c @ ''plugin/appkeys/request/'' @ tok) t) wb =
          Some (Fail e, w1) \<Longrightarrow>
        res = Inl e \<Longrightarrow> c1 = c \<Longrightarrow> thesis"
    and polling: "\<And>r wa r2 wb tok r3 wc. http (probe_request c t) w = Some (Resp r, wa) \<Longrightarrow>
        http (token_request a un c t) wa = Some (Resp r2, wb) \<Longrightarrow>
        http (poll_request c (base_url c @ ''plugin/appkeys/request/'' @ tok) t) wb =
          Some (Resp r3, wc) \<Longrightarrow>
        wait_for_user c (base_url c @ ''plugin/appkeys/request/'' @ tok) t r3 wc =
          Some (res, c1, w1) \<Longrightarrow> thesis"
  shows thesis
proof -
  from run obtain rp wa where p: "http (probe_request c t) w = Some (rp, wa)"
    by (cases "http (probe_request c t) w") (auto simp: get_api_key_def)
  show thesis
  proof (cases rp)
    case (Fail e)
    with run p have "w1 = wa \<and> c1 = c"
      by (cases e) (simp_all add: get_api_key_def)
    with p Fail show thesis
      by (auto intro: probe_failed)
  next
    case (Resp r)
    note p = p [unfolded Resp]
    show thesis
    proof (cases "status_code r = 204")
      case False
      with run p show thesis
        by (auto simp: get_api_key_def intro: no_plugin)
    next
      case True
      with run p obtain rq wb where q: "http (token_request a un c t) wa = Some (rq, wb)"
        by (cases "http (token_request a un c t) wa") (auto simp: get_api_key_def)
      show thesis
      proof (cases rq)
        case (Fail e)
        with run p True q show thesis
          by (auto simp: get_api_key_def intro: request_failed)
      next
        case (Resp r2)
        note q = q [unfolded Resp]
        show thesis
        proof (cases "status_code r2 = 201")
          case False
          with run p True q show thesis
            by (auto simp: get_api_key_def intro: not_created)
        next
          case created: True
          show thesis
          proof (cases "response_json r2")
            case (Inl e)
            with run p True q created show thesis
              by (auto simp: get_api_key_def intro: bad_token)
          next
            case json: (Inr j)
            show thesis
            proof (cases "getitem j ''app_token''")
              case (Inl e)
              with run p True q created json show thesis
                by (auto simp: get_api_key_def intro: bad_token)
            next
              case token: (Inr tk)
              show thesis
              proof (cases "\<exists>tok. tk = JStr tok")
                case False
                then have "str_add (base_url c @ ''plugin/appkeys/request/'') tk = Inl TypeError"
                  by (cases tk) (simp_all add: str_add_def)
                with run p True q created json token show thesis
                  by (auto simp: get_api_key_def intro: bad_token)
              next
                case True
                then obtain tok where tok: "tk = JStr tok" ..
                define u where "u = base_url c @ ''plugin/appkeys/request/'' @ tok"
                have u: "str_add (base_url c @ ''plugin/appkeys/request/'') tk = Inr u"
                  by (simp add: u_def tok str_add_def)
                from run p \<open>status_code r = 204\<close> q created json token u
                have rest: "(case http (poll_request c u t) wb of
                               None \<Rightarrow> None
                             | Some (Fail e, w3) \<Rightarrow> Some (Inl e, c, w3)
                             | Some (Resp r3, w3) \<Rightarrow> wait_for_user c u t r3 w3) =
                            Some (res, c1, w1)"
                  by (simp add: get_api_key_def)
                then obtain r3 wc where o: "http (poll_request c u t) wb = Some (r3, wc)"
                  by (cases "http (poll_request c u t) wb") auto
                show thesis
                proof (cases r3)
                  case (Fail e)
                  with rest o have e: "res = Inl e" "c1 = c"
                    and o1: "http (poll_request c u t) wb = Some (Fail e, w1)"
                    by simp_all
                  show thesis
                    by (rule poll_failed [OF p q o1 [unfolded u_def] e])
                next
                  case (Resp r3')
                  with rest o have o1: "http (poll_request c u t) wb = Some (Resp r3', wc)"
                    and l: "wait_for_user c u t r3' wc = Some (res, c1, w1)"
                    by simp_all
                  show thesis
                    by (rule polling [OF p q o1 [unfolded u_def] l [unfolded u_def]])
                qed
              qed
            qed
          qed
        qed
      qed
    qed
  qed
qed


lemma get_api_key_key:
  assumes "get_api_key a un t c w = Some (res, c1, w1)" and "no_null_key w"
  shows "c1 = c \<or> (connected c1 \<and> api_key c1 \<noteq> JNull)"
  using assms(1)
proof (cases rule: get_api_key_cases)
  case (polling r wa r2 wb tok r3 wc)
  from polling(1-3) assms(2) have "no_null_key wc"
    by (blast dest: no_null_key_http)
  with polling(4) show ?thesis
    by (rule wait_for_user_key)
qed auto

lemma http_sent: "http rq w = Some (r, w1) \<Longrightarrow> sent w1 = sent w @ [rq]"
  by (simp add: http_SomeD)




lemma deregister_run:
  assumes "deregister c w = Some (res, c1, w1)"
  shows "base_url c1 = base_url c \<and> api_key c1 = api_key c \<and>
         (connected c1 \<longrightarrow> connected c) \<and> sent w1 = sent w @ [revoke_request c]"
proof -
  from assms obtain r wa where h: "http (revoke_request c) w = Some (r, wa)"
    by (cases "http (revoke_request c) w") (auto simp: deregister_def)
  show ?thesis
  proof (cases r)
    case (Fail e)
    with assms h have "c1 = c \<and> sent w1 = sent wa"
      by (cases e) (auto simp: deregister_def)
    with h show ?thesis
      by (simp add: http_sent)
  next
    case (Resp rs)
    with assms h have "(c1 = c \<or> c1 = c\<lparr>connected := False\<rparr>) \<and> w1 = wa"
      by (auto simp: deregister_def split: if_splits)
    with h show ?thesis
      by (auto simp: http_sent)
  qed
qed

lemma job_command_run:
  assumes "(case http (job_command action c) w of
              None \<Rightarrow> None
            | Some (Fail e, w1) \<Rightarrow>
                (case e of
                   ConnectionError m \<Rightarrow> Some (Inr PFalse, c, print ''Connection refused.'' w1)
                 | _ \<Rightarrow> Some (Inl e, c, w1))
            | Some (Resp r, w1) \<Rightarrow> Some (Inr (Posted r), c, w1)) = Some (res, c1, w1)"
  shows "c1 = c \<and> sent w1 = sent w @ [job_command action c]"
proof -
  from assms obtain r wa where h: "http (job_command action c) w = Some (r, wa)"
    by (cases "http (job_command action c) w") auto
  show ?thesis
  proof (cases r)
    case (Fail e)
    with assms h have "c1 = c \<and> sent w1 = sent wa"
      by (cases e) auto
    with h show ?thesis
      by (simp add: http_sent)
  next
    case (Resp rs)
    with assms h have "c1 = c \<and> w1 = wa"
      by auto
    with h show ?thesis
      by (simp add: http_sent)
  qed
qed

lemma pause_print_run:
  assumes "pause_print c w = Some (res, c1, w1)"
  shows "c1 = c \<and> sent w1 = sent w @ (if connected c then [job_command ''pause'' c] else [])"
proof (cases "connected c")
  case True
  with assms show ?thesis
    by (simp add: pause_print_def job_command_run)
next
  case False
  with assms show ?thesis
    by (simp add: pause_print_def)
qed

lemma resume_print_run:
  assumes "resume_print c w = Some (res, c1, w1)"
  shows "c1 = c \<and> sent w1 = sent w @ (if connected c then [job_command ''resume'' c] else [])"
proof (cases "connected c")
  case True
  with assms show ?thesis
    by (simp add: resume_print_def job_command_run)
next
  case False
  with assms show ?thesis
    by (simp add: resume_print_def)
qed


section \<open>The connection invariant\<close>

text \<open>
  Claim C7 says that in every state reachable from construction by
  \<^verbatim>\<open>_set_api_key\<close>, \<^verbatim>\<open>get_api_key\<close>, \<^verbatim>\<open>deregister\<close>, \<^verbatim>\<open>pause_print\<close> and
  \<^verbatim>\<open>resume_print\<close>, a connected client holds a key. Nothing in the source looks at
  the key it stores: a handshake whose approving response carries \<^verbatim>\<open>"api_key": null\<close>
  stores \<^verbatim>\<open>None\<close> and sets \<open>connected\<close>.
\<close>

theorem connected_without_key_counterexample:
  "map_option (\<lambda>(res, c1, w1). (res, c1))
     (get_api_key ''app'' None 9 (init ''h'' 81 ''/x/'')
        (fresh [Resp \<lparr>status_code = 204, body = Inl ValueError\<rparr>,
                Resp \<lparr>status_code = 201, body = Inr (JDict [(''app_token'', JStr ''tok'')])\<rparr>,
                Resp \<lparr>status_code = 202, body = Inl ValueError\<rparr>,
                Resp \<lparr>status_code = 200, body = Inr (JDict [(''api_key'', JNull)])\<rparr>])) =
   Some (Inr True,
         \<lparr>base_url = ''http://h:81/x/'', headers = [(''X-Api-Key'', JNull)],
          api_key = JNull, connected = True\<rparr>) \<and>
   reachable (\<lambda>key. True) (\<lambda>w. True)
     \<lparr>base_url = ''http://h:81/x/'', headers = [(''X-Api-Key'', JNull)],
      api_key = JNull, connected = True\<rparr> \<and>
   connected
     \<lparr>base_url = ''http://h:81/x/'', headers = [(''X-Api-Key'', JNull)],
      api_key = JNull, connected = True\<rparr> \<and>
   api_key
     \<lparr>base_url = ''http://h:81/x/'', headers = [(''X-Api-Key'', JNull)],
      api_key = JNull, connected = True\<rparr> = JNull"
proof -
  let ?w = "fresh [Resp \<lparr>status_code = 204, body = Inl ValueError\<rparr>,
                   Resp \<lparr>status_code = 201, body = Inr (JDict [(''app_token'', JStr ''tok'')])\<rparr>,
                   Resp \<lparr>status_code = 202, body = Inl ValueError\<rparr>,
                   Resp \<lparr>status_code = 200, body = Inr (JDict [(''api_key'', JNull)])\<rparr>]"
  let ?c = "\<lparr>base_url = ''http://h:81/x/'', headers = [(''X-Api-Key'', JNull)],
             api_key = JNull, connected = True\<rparr>"
  have m: "map_option (\<lambda>(res, c1, w1). (res, c1))
             (get_api_key ''app'' None 9 (init ''h'' 81 ''/x/'') ?w) = Some (Inr True, ?c)"
    by (simp add: get_api_key_def http_def fresh_def init_h_81 wait_for_user.simps
          response_json_def getitem_def str_add_def sleep_def set_api_key_def request_defs)
  then obtain w1 where
    run: "get_api_key ''app'' None 9 (init ''h'' 81 ''/x/'') ?w = Some (Inr True, ?c, w1)"
    by auto
  have "reachable (\<lambda>key. True) (\<lambda>w. True) ?c"
    using r_init _ run by (rule r_get_api_key) simp
  with m show ?thesis
    by simp
qed

text \<open>
  Claim C7, amended. In every state reachable from construction by any sequence of
  \<^verbatim>\<open>_set_api_key\<close>, \<^verbatim>\<open>get_api_key\<close>, \<^verbatim>\<open>deregister\<close>, \<^verbatim>\<open>pause_print\<close> and
  \<^verbatim>\<open>resume_print\<close> in which no call of \<^verbatim>\<open>_set_api_key\<close> passes \<^verbatim>\<open>None\<close> and no
  response with status 200 carries a \<^verbatim>\<open>null\<close> \<^verbatim>\<open>api_key\<close>, \<open>connected\<close> implies
  that \<open>api_key\<close> is not \<^verbatim>\<open>None\<close>.
\<close>

theorem connected_has_key:
  assumes "reachable (\<lambda>key. key \<noteq> JNull) no_null_key c" and "connected c"
  shows "api_key c \<noteq> JNull"
proof -
  from assms(1) have "connected c \<longrightarrow> api_key c \<noteq> JNull"
  proof (induction rule: reachable.induct)
    case (r_init host port path)
    show ?case by (simp add: init_def)
  next
    case (r_set_api_key c key)
    then show ?case by (simp add: set_api_key_def)
  next
    case (r_get_api_key c w app_name user_name t res c1 w1)
    from r_get_api_key.hyps have "c1 = c \<or> (connected c1 \<and> api_key c1 \<noteq> JNull)"
      by (blast dest: get_api_key_key)
    with r_get_api_key.IH show ?case by blast
  next
    case (r_deregister c w res c1 w1)
    from r_deregister.hyps r_deregister.IH show ?case
      by (auto dest: deregister_run)
  next
    case (r_pause_print c w resp c1 w1)
    from r_pause_print.hyps r_pause_print.IH show ?case
      by (auto dest: pause_print_run)
  next
    case (r_resume_print c w resp c1 w1)
    from r_resume_print.hyps r_resume_print.IH show ?case
      by (auto dest: resume_print_run)
  qed
  with assms(2) show ?thesis by simp
qed

theorem connected_has_key_witness:
  "reachable (\<lambda>key. key \<noteq> JNull) no_null_key
     \<lparr>base_url = ''http://h:81/x/'', headers = [(''X-Api-Key'', JStr ''key'')],
      api_key = JStr ''key'', connected = True\<rparr> \<and>
   connected
     \<lparr>base_url = ''http://h:81/x/'', headers = [(''X-Api-Key'', JStr ''key'')],
      api_key = JStr ''key'', connected = True\<rparr> \<and>
   api_key
     \<lparr>base_url = ''http://h:81/x/'', headers = [(''X-Api-Key'', JStr ''key'')],
      api_key = JStr ''key'', connected = True\<rparr> \<noteq> JNull"
proof -
  let ?w = "fresh [Resp \<lparr>status_code = 204, body = Inl ValueError\<rparr>,
                   Resp \<lparr>status_code = 201, body = Inr (JDict [(''app_token'', JStr ''tok'')])\<rparr>,
                   Resp \<lparr>status_code = 202, body = Inl ValueError\<rparr>,
                   Resp \<lparr>status_code = 200, body = Inr (JDict [(''api_key'', JStr ''key'')])\<rparr>]"
  let ?c = "\<lparr>base_url = ''http://h:81/x/'', headers = [(''X-Api-Key'', JStr ''key'')],
             api_key = JStr ''key'', connected = True\<rparr>"
  have "map_option (\<lambda>(res, c1, w1). c1) (get_api_key ''app'' None 9 (init ''h'' 81 ''/x/'') ?w) =
          Some ?c"
    by (simp add: get_api_key_def http_def fresh_def init_h_81 wait_for_user.simps
          response_json_def getitem_def str_add_def sleep_def set_api_key_def request_defs)
  then obtain res w1 where
    run: "get_api_key ''app'' None 9 (init ''h'' 81 ''/x/'') ?w = Some (res, ?c, w1)"
    by auto
  have w: "no_null_key ?w"
    by (simp add: no_null_key_def fresh_def)
  have r: "reachable (\<lambda>key. key \<noteq> JNull) no_null_key ?c"
    using r_init w run by (rule r_get_api_key)
  have c: "connected ?c"
    by simp
  from r c connected_has_key [OF r c] show ?thesis
    by simp
qed

section \<open>The base URL\<close>



end
